theory Spec2Isabelle
  imports Main "HOL-Library.Sublist"
begin

section \<open>The dashboard notification listener\<close>

text \<open>
  A shallow embedding of \<^verbatim>\<open>DashboardAutomationEventListener.messageSent\<close> of
  \<^verbatim>\<open>lib/dashboard.ts\<close>. The method talks to two collaborators, the graph client
  (identity lookup) and the message client (event publication); the model returns the calls
  it makes to them, in two lists, together with the state of the promise it hands back.
  A \<^verbatim>\<open>TypeError\<close> thrown before the method returns is the left summand of the result.
  Records keep the field names of the source, with a short prefix where a name occurs in
  more than one record (\<open>act_text\<close>, \<open>na_text\<close>, \<open>sm_text\<close>).
\<close>

subsection \<open>JavaScript values\<close>

text \<open>
  A property that may be missing, \<^verbatim>\<open>null\<close> or present. Lodash's \<^verbatim>\<open>_.get\<close> tells the
  first two apart at the end of a path, so the model keeps both.
\<close>

datatype 'a maybe = Undefined | Null | Defined 'a

text \<open>
  The values of a command's parameter object. The source reads them through \<^verbatim>\<open>any\<close>;
  the model covers the absent values, booleans and strings.
\<close>

datatype jsvalue = JUndefined | JNull | JBool bool | JStr string

fun truthy :: "jsvalue \<Rightarrow> bool" where
  "truthy JUndefined = False"
| "truthy JNull = False"
| "truthy (JBool b) = b"
| "truthy (JStr s) = (s \<noteq> [])"

fun toString :: "jsvalue \<Rightarrow> string" where
  "toString (JBool b) = (if b then ''true'' else ''false'')"
| "toString (JStr s) = s"
| "toString JUndefined = ''undefined''"
| "toString JNull = ''null''"

text \<open>The state in which a promise settles.\<close>

datatype 'a promise = Rejected | Resolved 'a

datatype error = TypeError

subsection \<open>Chat messages\<close>

text \<open>
  \<^verbatim>\<open>CommandReference\<close>: the parameter object is the list of its own enumerable
  properties in the order \<^verbatim>\<open>for ... in\<close> visits them.
\<close>

record CommandReference =
  cmd_name :: string
  cmd_parameters :: "(string \<times> jsvalue) list option"

text \<open>
  An \<^verbatim>\<open>Action\<close> seen as a \<^verbatim>\<open>CommandReferencingAction\<close>, as the cast in the source
  does. A plain action has no \<^verbatim>\<open>command\<close>.
\<close>

record Action =
  act_text :: string
  act_command :: "CommandReference option"

text \<open>
  An attachment may have no \<^verbatim>\<open>actions\<close> array, and an entry of the array may be
  falsy (\<open>None\<close>).
\<close>

record Attachment =
  att_actions :: "Action option list option"

record SlackMessage =
  sm_text :: "string option"
  sm_attachments :: "Attachment list option"

text \<open>The \<^verbatim>\<open>message: any\<close> argument: a string primitive or an object.\<close>

datatype message = MString string | MObject SlackMessage

record MessageOptions =
  opt_id :: "string option"
  opt_ts :: "int option"
  opt_ttl :: "int option"
  opt_post :: "string option"
  opt_dashboard :: "bool option"

record Destination =
  team :: string
  users :: "string list option"
  channels :: "string list option"

text \<open>\<^verbatim>\<open>destinations: Destination | Destination[]\<close>, possibly absent.\<close>

datatype destinations = NoDestination | OneDestination Destination | DestinationArray "Destination list"

subsection \<open>Notifications\<close>

datatype actionType = Button | Menu

record NotifactionAction =
  na_text :: string
  na_type :: actionType
  na_registration :: string
  na_command :: string
  na_parameters :: "(string \<times> string option) list"

datatype contentType = TextPlain | SlackJson

record Notification =
  ts :: int
  key :: string
  ttl :: "int option"
  post :: "string option"
  contentType :: contentType
  body :: string
  actions :: "NotifactionAction list"
  recipient :: "string option"

definition NotificationRootType :: string where
  "NotificationRootType = ''Notification''"

subsection \<open>The identity lookup\<close>

definition LoginQuery :: string where
  "LoginQuery =
     ''query ChatIdByScreenName($teamId: ID, $screenName: String!) {'' @ [CHR 0x0A] @
     ''  ChatTeam(id: $teamId) {'' @ [CHR 0x0A] @
     ''    members(screenName: $screenName) {'' @ [CHR 0x0A] @
     ''      person {'' @ [CHR 0x0A] @
     ''        gitHubId {'' @ [CHR 0x0A] @
     ''          login'' @ [CHR 0x0A] @
     ''        }'' @ [CHR 0x0A] @
     ''      }'' @ [CHR 0x0A] @
     ''    }'' @ [CHR 0x0A] @
     ''  }'' @ [CHR 0x0A] @
     ''}'' @ [CHR 0x0A]"

record QueryOptions =
  query :: string
  teamId :: string
  screenName :: "string option"

text \<open>The shape of the answer to \<^verbatim>\<open>LoginQuery\<close>.\<close>

record GitHubId =
  login :: "string maybe"

record Person =
  gitHubId :: "GitHubId maybe"

record ChatTeamMember =
  person :: "Person maybe"

record ChatTeamNode =
  members :: "ChatTeamMember list maybe"

record ChatId =
  ChatTeam :: "ChatTeamNode list maybe"

text \<open>
  One step of lodash's \<^verbatim>\<open>baseGet\<close>: the walk stops at a missing or \<^verbatim>\<open>null\<close> object
  before the end of the path, and the result is then \<^verbatim>\<open>undefined\<close>.
\<close>

fun step :: "'a maybe \<Rightarrow> ('a \<Rightarrow> 'b maybe) \<Rightarrow> 'b maybe" where
  "step (Defined x) f = f x"
| "step Undefined f = Undefined"
| "step Null f = Undefined"

fun index0 :: "'a list \<Rightarrow> 'a maybe" where
  "index0 [] = Undefined"
| "index0 (x # xs) = Defined x"

text \<open>\<^verbatim>\<open>_.get(chatId, "ChatTeam[0].members[0].person.gitHubId.login")\<close>\<close>

definition get_login :: "ChatId maybe \<Rightarrow> string maybe" where
  "get_login chatId =
     step chatId (\<lambda>c. step (ChatTeam c) (\<lambda>teams. step (index0 teams) (\<lambda>t.
       step (members t) (\<lambda>ms. step (index0 ms) (\<lambda>m.
         step (person m) (\<lambda>p. step (gitHubId p) (\<lambda>g. login g)))))))"

text \<open>\<^verbatim>\<open>_.get(object, path, defaultValue)\<close>: the default replaces \<^verbatim>\<open>undefined\<close> only.\<close>

definition get_login_default :: "ChatId maybe \<Rightarrow> string \<Rightarrow> string maybe" where
  "get_login_default chatId defaultValue =
     (case get_login chatId of Undefined \<Rightarrow> Defined defaultValue | r \<Rightarrow> r)"

subsection \<open>The handler context and the runtime\<close>

record WebIdentity =
  sub :: "string option"

record WebSource =
  identity :: "WebIdentity option"

record SlackUser =
  user_name :: "string option"

record SlackSource =
  team_id :: string
  user :: "SlackUser option"

record Source =
  user_agent :: string
  web :: "WebSource option"
  slack :: "SlackSource option"

text \<open>
  \<^verbatim>\<open>HandlerContext\<close>: \<open>graphClient_query\<close> is the answer of
  \<^verbatim>\<open>ctx.graphClient.query\<close> and \<open>messageClient_send\<close> the outcome of
  \<^verbatim>\<open>ctx.messageClient.send\<close> for the record and the root type of
  \<^verbatim>\<open>addressEvent\<close>; \<open>context_name\<close> is \<^verbatim>\<open>ctx.context.name\<close>.
\<close>

record HandlerContext =
  workspaceId :: string
  source :: "Source option"
  context_name :: string
  graphClient_query :: "QueryOptions \<Rightarrow> ChatId maybe promise"
  messageClient_send :: "Notification \<Rightarrow> string \<Rightarrow> unit promise"

text \<open>
  What the method reads from outside its arguments: \<^verbatim>\<open>cluster.isWorker\<close>,
  \<^verbatim>\<open>guid()\<close>, \<^verbatim>\<open>Date.now()\<close>, \<^verbatim>\<open>JSON.stringify\<close> and the library's
  \<^verbatim>\<open>isSlackMessage\<close>.
\<close>

record runtime =
  isWorker :: bool
  guid :: string
  now :: int
  stringify :: "SlackMessage \<Rightarrow> string"
  isSlackMessage :: "SlackMessage \<Rightarrow> bool"

text \<open>
  The calls made to the two collaborators and the promise returned. The lookups are listed
  in the order they are issued. The workspace event of an addressed message is published
  before any lookup is issued; the events of the per-user lookups follow, listed in the order
  of their lookups (the source publishes each when its lookup resolves, in no fixed order).
\<close>

record outcome =
  queries :: "QueryOptions list"
  sent :: "(Notification \<times> string) list"
  settled :: "unit promise"

definition nothing :: outcome where
  "nothing = \<lparr>queries = [], sent = [], settled = Resolved ()\<rparr>"

subsection \<open>Filters and normalisation\<close>

text \<open>\<^verbatim>\<open>String.prototype.includes\<close>\<close>

fun string_includes :: "string \<Rightarrow> string \<Rightarrow> bool" where
  "string_includes [] s = (s = [])"
| "string_includes (c # cs) s = (prefix s (c # cs) \<or> string_includes cs s)"

text \<open>
  \<^verbatim>\<open>ignore = (options.id && options.id.includes("lifecycle")) || options.dashboard === false\<close>,
  and \<^verbatim>\<open>false\<close> without options.
\<close>

definition ignore :: "MessageOptions option \<Rightarrow> bool" where
  "ignore options =
     (case options of
        None \<Rightarrow> False
      | Some opts \<Rightarrow>
          (case opt_id opts of None \<Rightarrow> False | Some i \<Rightarrow> i \<noteq> [] \<and> string_includes i ''lifecycle'')
          \<or> opt_dashboard opts = Some False)"

text \<open>A string is wrapped in a message with only a text; an object must pass \<^verbatim>\<open>isSlackMessage\<close>.\<close>

definition slackMessage :: "runtime \<Rightarrow> message \<Rightarrow> SlackMessage option" where
  "slackMessage rt message =
     (case message of
        MString s \<Rightarrow> Some \<lparr>sm_text = Some s, sm_attachments = None\<rparr>
      | MObject m \<Rightarrow> if isSlackMessage rt m then Some m else None)"

subsection \<open>Actions\<close>

text \<open>
  \<^verbatim>\<open>_.flatten\<close> flattens one level: an array is spliced in, anything else stays as one
  entry. The \<^verbatim>\<open>actions\<close> of an attachment without actions is \<^verbatim>\<open>undefined\<close>, one
  falsy entry.
\<close>

definition flatten :: "'a option list option list \<Rightarrow> 'a option list" where
  "flatten xss = concat (map (\<lambda>xs. case xs of None \<Rightarrow> [None] | Some ys \<Rightarrow> ys) xss)"

text \<open>\<^verbatim>\<open>.filter(a => a)\<close>\<close>

fun filter_truthy :: "'a option list \<Rightarrow> 'a list" where
  "filter_truthy [] = []"
| "filter_truthy (None # xs) = filter_truthy xs"
| "filter_truthy (Some x # xs) = x # filter_truthy xs"

text \<open>
  The loop over the keys of \<^verbatim>\<open>cra.command.parameters\<close>; no iteration when it is absent.
  Each iteration calls \<^verbatim>\<open>cra.command.parameters.hasOwnProperty(key)\<close> on the parameter
  object itself: when the object has a property of its own named \<^verbatim>\<open>hasOwnProperty\<close>
  (whose value, one of \<open>jsvalue\<close>, is no function) the call throws in the first iteration.
  Otherwise the test holds for every key, the keys being the object's own.
\<close>

definition parameters :: "CommandReference \<Rightarrow> error + (string \<times> string option) list" where
  "parameters c =
     (case cmd_parameters c of
        None \<Rightarrow> Inr []
      | Some ps \<Rightarrow>
          if ''hasOwnProperty'' \<in> set (map fst ps) then Inl TypeError
          else Inr (map (\<lambda>(k, v). (k, if truthy v then Some (toString v) else None)) ps))"

text \<open>
  The body of the \<^verbatim>\<open>map\<close> callback; reading \<^verbatim>\<open>cra.command.parameters\<close> of an action
  without command throws, and so may the loop over the parameters.
\<close>

definition notificationAction :: "HandlerContext \<Rightarrow> Action \<Rightarrow> error + NotifactionAction" where
  "notificationAction ctx cra =
     (case act_command cra of
        None \<Rightarrow> Inl TypeError
      | Some c \<Rightarrow>
          (case parameters c of
             Inl e \<Rightarrow> Inl e
           | Inr ps \<Rightarrow>
               Inr \<lparr>na_text = act_text cra, na_type = Button, na_registration = context_name ctx,
                    na_command = cmd_name c, na_parameters = ps\<rparr>))"

text \<open>\<^verbatim>\<open>Array.prototype.map\<close> with a callback that may throw: the first throw ends it.\<close>

fun map_throwing :: "('a \<Rightarrow> error + 'b) \<Rightarrow> 'a list \<Rightarrow> error + 'b list" where
  "map_throwing f [] = Inr []"
| "map_throwing f (x # xs) =
     (case f x of
        Inl e \<Rightarrow> Inl e
      | Inr y \<Rightarrow> (case map_throwing f xs of Inl e \<Rightarrow> Inl e | Inr ys \<Rightarrow> Inr (y # ys)))"

definition notificationActions :: "HandlerContext \<Rightarrow> SlackMessage \<Rightarrow> error + NotifactionAction list" where
  "notificationActions ctx m =
     map_throwing (notificationAction ctx)
       (filter_truthy (flatten (map att_actions
          (case sm_attachments m of None \<Rightarrow> [] | Some atts \<Rightarrow> atts))))"

subsection \<open>The notification\<close>

definition msg :: "runtime \<Rightarrow> MessageOptions option \<Rightarrow> SlackMessage \<Rightarrow> NotifactionAction list \<Rightarrow> Notification" where
  "msg rt options m acts =
     \<lparr>ts = (case options of
              None \<Rightarrow> now rt
            | Some opts \<Rightarrow> (case opt_ts opts of None \<Rightarrow> now rt | Some t \<Rightarrow> if t \<noteq> 0 then t else now rt)),
      key = (case options of
               None \<Rightarrow> guid rt
             | Some opts \<Rightarrow> (case opt_id opts of None \<Rightarrow> guid rt | Some i \<Rightarrow> if i \<noteq> [] then i else guid rt)),
      ttl = (case options of None \<Rightarrow> None | Some opts \<Rightarrow> opt_ttl opts),
      post = (case options of None \<Rightarrow> None | Some opts \<Rightarrow> opt_post opts),
      contentType = SlackJson,
      body = stringify rt m,
      actions = acts,
      recipient = None\<rparr>"

subsection \<open>Emission\<close>

text \<open>
  \<^verbatim>\<open>ctx.messageClient.send({..._.cloneDeep(msg), recipient: {address}}, addressEvent(NotificationRootType))\<close>
\<close>

definition send :: "HandlerContext \<Rightarrow> Notification \<Rightarrow> string \<Rightarrow> outcome" where
  "send ctx m address =
     (let n = m\<lparr>recipient := Some address\<rparr>
      in \<lparr>queries = [], sent = [(n, NotificationRootType)],
          settled = messageClient_send ctx n NotificationRootType\<rparr>)"

text \<open>The callback after a lookup: \<^verbatim>\<open>if (login) send(...) else Promise.resolve()\<close>.\<close>

definition sendToLogin :: "HandlerContext \<Rightarrow> Notification \<Rightarrow> string maybe \<Rightarrow> outcome" where
  "sendToLogin ctx m l =
     (case l of
        Defined s \<Rightarrow> if s \<noteq> [] then send ctx m (workspaceId ctx @ ''-'' @ s) else nothing
      | Undefined \<Rightarrow> nothing
      | Null \<Rightarrow> nothing)"

text \<open>\<^verbatim>\<open>ctx.graphClient.query(q).then(k)\<close>: a rejected lookup never runs the callback.\<close>

definition queryThen :: "HandlerContext \<Rightarrow> QueryOptions \<Rightarrow> (ChatId maybe \<Rightarrow> outcome) \<Rightarrow> outcome" where
  "queryThen ctx q k =
     (case graphClient_query ctx q of
        Rejected \<Rightarrow> \<lparr>queries = [q], sent = [], settled = Rejected\<rparr>
      | Resolved chatId \<Rightarrow> (k chatId)\<lparr>queries := q # queries (k chatId)\<rparr>)"

text \<open>\<^verbatim>\<open>Promise.all(messages).then(() => Promise.resolve())\<close>: every promise of the array was
  started when the array was built.\<close>

definition promiseAll :: "outcome list \<Rightarrow> outcome" where
  "promiseAll os =
     \<lparr>queries = concat (map queries os), sent = concat (map sent os),
      settled = (if list_all (\<lambda>p. settled p = Resolved ()) os then Resolved () else Rejected)\<rparr>"

subsection \<open>Response messages: no destinations\<close>

text \<open>The first test of the response branch: a web origin that carries an identity.\<close>

definition webIdentity :: "HandlerContext \<Rightarrow> WebIdentity option" where
  "webIdentity ctx =
     (case source ctx of
        None \<Rightarrow> None
      | Some src \<Rightarrow>
          if user_agent src = ''web'' then (case web src of None \<Rightarrow> None | Some w \<Rightarrow> identity w)
          else None)"

text \<open>
  The three branches on \<^verbatim>\<open>ctx.source\<close>. A chat origin without \<^verbatim>\<open>slack\<close> or without
  \<^verbatim>\<open>slack.user\<close> throws when the variables of the lookup are read. A missing
  \<^verbatim>\<open>sub\<close> prints as \<^verbatim>\<open>undefined\<close> in the template string.
\<close>

definition responseMessage :: "HandlerContext \<Rightarrow> Notification \<Rightarrow> error + outcome" where
  "responseMessage ctx m =
     (case webIdentity ctx of
        Some i \<Rightarrow>
          Inr (send ctx m (workspaceId ctx @ ''-'' @ (case sub i of None \<Rightarrow> ''undefined'' | Some s \<Rightarrow> s)))
      | None \<Rightarrow>
          (case source ctx of
             None \<Rightarrow> Inr (send ctx m (workspaceId ctx))
           | Some src \<Rightarrow>
               if user_agent src = ''slack'' then
                 (case slack src of
                    None \<Rightarrow> Inl TypeError
                  | Some sl \<Rightarrow>
                      (case user sl of
                         None \<Rightarrow> Inl TypeError
                       | Some u \<Rightarrow>
                           Inr (queryThen ctx
                                  \<lparr>query = LoginQuery, teamId = team_id sl, screenName = user_name u\<rparr>
                                  (\<lambda>chatId. sendToLogin ctx m (get_login chatId)))))
               else Inr (send ctx m (workspaceId ctx))))"

subsection \<open>Addressed messages\<close>

text \<open>
  The entries of the \<^verbatim>\<open>users\<close> array are objects, each made by its own object literal.
  An object is modelled with its reference: the number of user objects made before it.
\<close>

record UserEntry =
  user_teamId :: string
  user_screenName :: string

text \<open>The body of \<^verbatim>\<open>dest.forEach\<close>: an absent \<^verbatim>\<open>users\<close> adds nothing.\<close>

definition pushUsers :: "(nat \<times> UserEntry) list \<Rightarrow> Destination \<Rightarrow> (nat \<times> UserEntry) list" where
  "pushUsers us sd =
     (case users sd of
        None \<Rightarrow> us
      | Some names \<Rightarrow>
          us @ zip [length us ..< length us + length names]
                 (map (\<lambda>u. \<lparr>user_teamId = team sd, user_screenName = u\<rparr>) names))"

text \<open>
  \<^verbatim>\<open>_.uniq\<close> keeps the first occurrence of each value under \<^verbatim>\<open>SameValueZero\<close>, which
  compares two objects by reference.
\<close>

fun baseUniq :: "nat list \<Rightarrow> (nat \<times> 'a) list \<Rightarrow> (nat \<times> 'a) list" where
  "baseUniq seen [] = []"
| "baseUniq seen (x # xs) =
     (if fst x \<in> set seen then baseUniq seen xs else x # baseUniq (fst x # seen) xs)"

definition uniq :: "(nat \<times> 'a) list \<Rightarrow> (nat \<times> 'a) list" where
  "uniq xs = baseUniq [] xs"

text \<open>The lookup and the callback for one entry of \<^verbatim>\<open>_.uniq(users)\<close>.\<close>

definition userMessage :: "HandlerContext \<Rightarrow> Notification \<Rightarrow> UserEntry \<Rightarrow> outcome" where
  "userMessage ctx m u =
     queryThen ctx
       \<lparr>query = LoginQuery, teamId = user_teamId u, screenName = Some (user_screenName u)\<rparr>
       (\<lambda>chatId. sendToLogin ctx m (get_login_default chatId (user_screenName u)))"

definition addressedMessage :: "HandlerContext \<Rightarrow> Notification \<Rightarrow> Destination list \<Rightarrow> outcome" where
  "addressedMessage ctx m dest =
     (let us = foldl pushUsers [] dest;
          messages =
            [send ctx m (workspaceId ctx)] @
            (if length us > 0 then map (\<lambda>(r, u). userMessage ctx m u) (uniq us) else [])
      in promiseAll messages)"

subsection \<open>The listener\<close>

text \<open>
  \<^verbatim>\<open>messageSent\<close>; \<open>clustered\<close> is the field of the listener. The case on the
  destinations is the test \<^verbatim>\<open>!destinations || destinations.length === 0\<close> together
  with \<^verbatim>\<open>Array.isArray(destinations) ? destinations : [destinations]\<close>.
\<close>

definition messageSent ::
  "runtime \<Rightarrow> bool \<Rightarrow> message \<Rightarrow> destinations \<Rightarrow> MessageOptions option \<Rightarrow> HandlerContext
    \<Rightarrow> error + outcome" where
  "messageSent rt clustered message destinations options ctx =
     (if (clustered \<and> isWorker rt) \<or> \<not> clustered then
        (case slackMessage rt message of
           None \<Rightarrow> Inr nothing
         | Some m \<Rightarrow>
             if \<not> ignore options then
               (case notificationActions ctx m of
                  Inl e \<Rightarrow> Inl e
                | Inr acts \<Rightarrow>
                    (let n = msg rt options m acts
                     in case destinations of
                          NoDestination \<Rightarrow> responseMessage ctx n
                        | DestinationArray ds \<Rightarrow>
                            if length ds = 0 then responseMessage ctx n
                            else Inr (addressedMessage ctx n ds)
                        | OneDestination d \<Rightarrow> Inr (addressedMessage ctx n [d])))
             else Inr nothing)
      else Inr nothing)"

section \<open>Notions used to state the properties\<close>

text \<open>
  The destinations supplied, as a list: none for an absent argument. The response branch is
  taken exactly when this list is empty.
\<close>

definition destinationList :: "destinations \<Rightarrow> Destination list" where
  "destinationList ds =
     (case ds of NoDestination \<Rightarrow> [] | OneDestination d \<Rightarrow> [d] | DestinationArray xs \<Rightarrow> xs)"

text \<open>
  Every (team, screen name) pair named by the user list of a destination, in the order of
  the destinations and of their lists, repetitions included.
\<close>

definition userEntries :: "Destination list \<Rightarrow> UserEntry list" where
  "userEntries dest =
     concat (map (\<lambda>sd. case users sd of
                          None \<Rightarrow> []
                        | Some names \<Rightarrow> map (\<lambda>u. \<lparr>user_teamId = team sd, user_screenName = u\<rparr>) names)
                 dest)"

text \<open>The lookup issued for a pair.\<close>

definition loginQuery :: "string \<Rightarrow> string \<Rightarrow> QueryOptions" where
  "loginQuery t s = \<lparr>query = LoginQuery, teamId = t, screenName = Some s\<rparr>"

text \<open>
  The action list of every attachment, one after the other, without the falsy entries: what
  the flattening is said to produce from.
\<close>

definition attachmentActions :: "Attachment list \<Rightarrow> Action list" where
  "attachmentActions atts =
     concat (map (\<lambda>a. case att_actions a of None \<Rightarrow> [] | Some xs \<Rightarrow> filter_truthy xs) atts)"

section \<open>Example inputs\<close>

definition example_runtime :: runtime where
  "example_runtime =
     \<lparr>isWorker = False, guid = ''guid-1'', now = 1000,
      stringify = (\<lambda>m. ''{text:'' @ (case sm_text m of None \<Rightarrow> [] | Some t \<Rightarrow> t) @ ''}''),
      isSlackMessage =
        (\<lambda>m. (case sm_text m of None \<Rightarrow> False | Some t \<Rightarrow> t \<noteq> []) \<or>
              (case sm_attachments m of None \<Rightarrow> False | Some a \<Rightarrow> True))\<rparr>"

text \<open>A context of workspace \<^verbatim>\<open>W1\<close> whose publications all succeed.\<close>

definition example_ctx :: "Source option \<Rightarrow> (QueryOptions \<Rightarrow> ChatId maybe promise) \<Rightarrow> HandlerContext" where
  "example_ctx src g =
     \<lparr>workspaceId = ''W1'', source = src, context_name = ''registration'',
      graphClient_query = g, messageClient_send = (\<lambda>n r. Resolved ())\<rparr>"

text \<open>Answers of the lookup: a member with the given login, and no member.\<close>

definition member_with :: "string maybe \<Rightarrow> ChatId maybe" where
  "member_with l =
     Defined \<lparr>ChatTeam = Defined [\<lparr>members = Defined
       [\<lparr>person = Defined \<lparr>gitHubId = Defined \<lparr>login = l\<rparr>\<rparr>\<rparr>]\<rparr>]\<rparr>"

definition no_member :: "ChatId maybe" where
  "no_member = Defined \<lparr>ChatTeam = Defined [\<lparr>members = Defined []\<rparr>]\<rparr>"

definition slack_source :: "string \<Rightarrow> string \<Rightarrow> Source" where
  "slack_source t u =
     \<lparr>user_agent = ''slack'', web = None,
      slack = Some \<lparr>team_id = t, user = Some \<lparr>user_name = Some u\<rparr>\<rparr>\<rparr>"

definition users_of :: "string \<Rightarrow> string list \<Rightarrow> Destination" where
  "users_of t names = \<lparr>team = t, users = Some names, channels = None\<rparr>"

definition hello :: SlackMessage where
  "hello = \<lparr>sm_text = Some ''hello'', sm_attachments = None\<rparr>"

text \<open>The notification built for \<open>hello\<close> in the example runtime, without options.\<close>

definition hello_notification :: "string \<Rightarrow> Notification" where
  "hello_notification address =
     \<lparr>ts = 1000, key = ''guid-1'', ttl = None, post = None, contentType = SlackJson,
      body = ''{text:hello}'', actions = [], recipient = Some address\<rparr>"

definition command_action :: "string \<Rightarrow> Action" where
  "command_action t =
     \<lparr>act_text = t, act_command = Some \<lparr>cmd_name = t, cmd_parameters = None\<rparr>\<rparr>"

text \<open>A plain action, without command, and an action with a parameter named
  \<^verbatim>\<open>hasOwnProperty\<close>.\<close>

definition plain_action :: "string \<Rightarrow> Action" where
  "plain_action t = \<lparr>act_text = t, act_command = None\<rparr>"

definition shadowing_action :: "string \<Rightarrow> Action" where
  "shadowing_action t =
     \<lparr>act_text = t,
      act_command = Some \<lparr>cmd_name = t, cmd_parameters = Some [(''hasOwnProperty'', JStr ''x'')]\<rparr>\<rparr>"

definition with_actions :: "Action option list \<Rightarrow> SlackMessage" where
  "with_actions xs = \<lparr>sm_text = None, sm_attachments = Some [\<lparr>att_actions = Some xs\<rparr>]\<rparr>"

section \<open>Auxiliary facts\<close>

lemma string_includes_sublist: "string_includes s t = sublist t s"
  by (induction s) (auto simp: sublist_Cons_right)

text \<open>The references of the user objects are the positions in the array, so all differ.\<close>

lemma pushUsers_refs:
  "map fst us = [0 ..< length us] \<Longrightarrow> map fst (pushUsers us sd) = [0 ..< length (pushUsers us sd)]"
  by (auto simp: pushUsers_def split: option.splits simp flip: upt_add_eq_append)

lemma foldl_pushUsers_refs:
  "map fst us = [0 ..< length us] \<Longrightarrow>
   map fst (foldl pushUsers us dest) = [0 ..< length (foldl pushUsers us dest)]"
  by (induction dest arbitrary: us) (simp_all add: pushUsers_refs)

lemma foldl_pushUsers_entries:
  "map snd (foldl pushUsers us dest) = map snd us @ userEntries dest"
  by (induction dest arbitrary: us) (auto simp: pushUsers_def userEntries_def split: option.splits)

lemma baseUniq_distinct:
  "distinct (map fst xs) \<Longrightarrow> set (map fst xs) \<inter> set seen = {} \<Longrightarrow> baseUniq seen xs = xs"
  by (induction xs arbitrary: seen) auto

text \<open>Hence \<^verbatim>\<open>_.uniq(users)\<close> removes nothing.\<close>

lemma uniq_users: "uniq (foldl pushUsers [] dest) = foldl pushUsers [] dest"
proof -
  have "map fst (foldl pushUsers [] dest) = [0 ..< length (foldl pushUsers [] dest)]"
    by (rule foldl_pushUsers_refs) simp
  then have "distinct (map fst (foldl pushUsers [] dest))"
    by (metis distinct_upt)
  then show ?thesis
    by (simp add: uniq_def baseUniq_distinct)
qed

text \<open>A message that passes the filters reaches one of the two branches.\<close>

lemma messageSent_forwarded:
  assumes "(clustered \<and> isWorker rt) \<or> \<not> clustered"
    and "slackMessage rt message = Some m"
    and "\<not> ignore options"
    and "notificationActions ctx m = Inr acts"
  shows "messageSent rt clustered message destinations options ctx =
           (if destinationList destinations = [] then responseMessage ctx (msg rt options m acts)
            else Inr (addressedMessage ctx (msg rt options m acts) (destinationList destinations)))"
  using assms by (auto simp: messageSent_def destinationList_def split: destinations.splits)

lemma userMessage_queries: "queries (userMessage ctx n u) = [loginQuery (user_teamId u) (user_screenName u)]"
  by (simp add: userMessage_def queryThen_def loginQuery_def sendToLogin_def send_def nothing_def
      Let_def split: promise.splits maybe.splits)

lemma userMessage_sent_cases:
  "sent (userMessage ctx n u) = [] \<or>
   (\<exists>s. sent (userMessage ctx n u) =
          [(n\<lparr>recipient := Some (workspaceId ctx @ ''-'' @ s)\<rparr>, NotificationRootType)])"
  by (auto simp: userMessage_def queryThen_def sendToLogin_def send_def nothing_def Let_def
      split: promise.splits maybe.splits)

lemma addressedMessage_sent:
  "sent (addressedMessage ctx n dest) =
     (n\<lparr>recipient := Some (workspaceId ctx)\<rparr>, NotificationRootType) #
     concat (map (\<lambda>u. sent (userMessage ctx n u)) (userEntries dest))"
proof -
  have e: "map snd (foldl pushUsers [] dest) = userEntries dest"
    using foldl_pushUsers_entries [of "[]" dest] by simp
  have "map (\<lambda>(r, u). sent (userMessage ctx n u)) (foldl pushUsers [] dest)
          = map (\<lambda>u. sent (userMessage ctx n u)) (map snd (foldl pushUsers [] dest))"
    by (simp add: case_prod_unfold comp_def)
  then show ?thesis
    using e
    by (cases "foldl pushUsers [] dest = []")
       (auto simp: addressedMessage_def promiseAll_def send_def Let_def uniq_users comp_def
          case_prod_unfold)
qed

lemma addressedMessage_queries:
  "queries (addressedMessage ctx n dest) =
     map (\<lambda>u. loginQuery (user_teamId u) (user_screenName u)) (userEntries dest)"
proof -
  have e: "map snd (foldl pushUsers [] dest) = userEntries dest"
    using foldl_pushUsers_entries [of "[]" dest] by simp
  have "concat (map (\<lambda>(r, u). queries (userMessage ctx n u)) (foldl pushUsers [] dest))
          = map (\<lambda>u. loginQuery (user_teamId u) (user_screenName u))
              (map snd (foldl pushUsers [] dest))"
    by (induction "foldl pushUsers [] dest") (simp_all add: userMessage_queries case_prod_unfold)
  then show ?thesis
    using e
    by (cases "foldl pushUsers [] dest = []")
       (auto simp: addressedMessage_def promiseAll_def send_def Let_def uniq_users comp_def
          case_prod_unfold)
qed

lemmas example_defs = example_runtime_def example_ctx_def member_with_def no_member_def
  slack_source_def users_of_def hello_def hello_notification_def command_action_def

lemmas model_defs = messageSent_def slackMessage_def ignore_def notificationActions_def flatten_def
  msg_def responseMessage_def webIdentity_def addressedMessage_def pushUsers_def uniq_def
  userMessage_def queryThen_def sendToLogin_def send_def promiseAll_def nothing_def
  get_login_def get_login_default_def NotificationRootType_def

text \<open>Every event published is the one notification built for the message, with a recipient.\<close>

lemma sent_responseMessage:
  "responseMessage ctx n = Inr out \<Longrightarrow> e \<in> set (sent out) \<Longrightarrow>
   \<exists>a. e = (n\<lparr>recipient := Some a\<rparr>, NotificationRootType)"
  by (auto simp: responseMessage_def queryThen_def sendToLogin_def send_def nothing_def Let_def
      split: option.splits if_splits promise.splits maybe.splits)

lemma sent_addressedMessage:
  "e \<in> set (sent (addressedMessage ctx n dest)) \<Longrightarrow>
   \<exists>a. e = (n\<lparr>recipient := Some a\<rparr>, NotificationRootType)"
proof -
  assume "e \<in> set (sent (addressedMessage ctx n dest))"
  then consider "e = (n\<lparr>recipient := Some (workspaceId ctx)\<rparr>, NotificationRootType)"
    | u where "e \<in> set (sent (userMessage ctx n u))"
    by (auto simp: addressedMessage_sent)
  then show ?thesis
  proof cases
    case 1
    then show ?thesis by blast
  next
    case 2
    then show ?thesis
      using userMessage_sent_cases [of ctx n u] by auto
  qed
qed

lemma sent_messageSent:
  assumes "messageSent rt clustered message destinations options ctx = Inr out"
    and "e \<in> set (sent out)"
  shows "\<exists>m acts a. slackMessage rt message = Some m \<and> notificationActions ctx m = Inr acts \<and>
           e = ((msg rt options m acts)\<lparr>recipient := Some a\<rparr>, NotificationRootType)"
proof -
  from assms obtain m acts where m: "slackMessage rt message = Some m"
    and a: "notificationActions ctx m = Inr acts"
    and p: "(clustered \<and> isWorker rt) \<or> \<not> clustered" and i: "\<not> ignore options"
    by (auto simp: messageSent_def nothing_def split: if_splits option.splits sum.splits)
  show ?thesis
  proof (cases "destinationList destinations = []")
    case True
    then have "responseMessage ctx (msg rt options m acts) = Inr out"
      using assms(1) messageSent_forwarded [OF p m i a, of destinations] by simp
    then show ?thesis
      using sent_responseMessage assms(2) m a by blast
  next
    case False
    then have "out = addressedMessage ctx (msg rt options m acts) (destinationList destinations)"
      using assms(1) messageSent_forwarded [OF p m i a, of destinations] by simp
    then show ?thesis
      using sent_addressedMessage assms(2) m a by blast
  qed
qed

text \<open>The actions do not depend on the origin of the request.\<close>

lemma notificationActions_source:
  "notificationActions (ctx\<lparr>source := other\<rparr>) m = notificationActions ctx m"
proof -
  have "notificationAction (ctx\<lparr>source := other\<rparr>) = notificationAction ctx"
    by (rule ext) (simp add: notificationAction_def split: option.splits sum.splits)
  then show ?thesis
    by (simp add: notificationActions_def)
qed

text \<open>The address of a per-user event is longer than the workspace id.\<close>

lemma userMessage_not_workspace:
  "filter (\<lambda>(n', root). recipient n' = Some (workspaceId ctx)) (sent (userMessage ctx n u)) = []"
  using userMessage_sent_cases [of ctx n u] by auto

text \<open>Flattening and then dropping the falsy entries gives the action lists one after the other.\<close>

lemma filter_truthy_append: "filter_truthy (xs @ ys) = filter_truthy xs @ filter_truthy ys"
  by (induction xs rule: filter_truthy.induct) simp_all

lemma filter_truthy_flatten:
  "filter_truthy (flatten (map att_actions atts)) = attachmentActions atts"
  by (induction atts)
     (simp_all add: flatten_def attachmentActions_def filter_truthy_append split: option.splits)

lemma map_throwing_total:
  "\<forall>x \<in> set xs. \<exists>y. f x = Inr y \<Longrightarrow>
   \<exists>ys. map_throwing f xs = Inr ys \<and> list_all2 (\<lambda>x y. f x = Inr y) xs ys"
  by (induction xs) (auto split: sum.splits)

section \<open>The filters\<close>

text \<open>
  C6. The listener goes on to resolve and publish only if clustering is enabled and the
  process is a worker, or clustering is disabled. In every other case (a clustered process
  that is not a worker) it makes no lookup, publishes nothing, and the promise it returns
  resolves.
\<close>

theorem leader_filter:
  assumes "\<not> ((clustered \<and> isWorker rt) \<or> \<not> clustered)"
  shows "messageSent rt clustered message destinations options ctx =
           Inr \<lparr>queries = [], sent = [], settled = Resolved ()\<rparr>"
  using assms by (simp add: messageSent_def nothing_def)

theorem leader_filter_witness:
  "messageSent example_runtime True (MObject hello) (OneDestination (users_of ''T1'' [''bob'']))
     None (example_ctx None (\<lambda>q. Resolved no_member))
   = Inr \<lparr>queries = [], sent = [], settled = Resolved ()\<rparr>"
  using leader_filter [of True example_runtime]
  by (simp add: example_runtime_def)

text \<open>
  C7. For options whose id contains the substring \<^verbatim>\<open>lifecycle\<close>, and for options whose
  \<^verbatim>\<open>dashboard\<close> flag is \<^verbatim>\<open>false\<close>, the listener makes no lookup and publishes nothing,
  whatever the message, the destinations and the process.
\<close>

theorem ignored_emits_nothing:
  assumes "options = Some opts"
    and "(\<exists>i. opt_id opts = Some i \<and> sublist ''lifecycle'' i) \<or> opt_dashboard opts = Some False"
  shows "messageSent rt clustered message destinations options ctx =
           Inr \<lparr>queries = [], sent = [], settled = Resolved ()\<rparr>"
proof -
  have "ignore options"
    using assms by (auto simp: ignore_def string_includes_sublist)
  then show ?thesis
    by (simp add: messageSent_def nothing_def split: option.splits)
qed

theorem ignored_emits_nothing_witness:
  "messageSent example_runtime False (MObject hello) (OneDestination (users_of ''T1'' [''bob'']))
     (Some \<lparr>opt_id = Some ''x-lifecycle-1'', opt_ts = None, opt_ttl = None, opt_post = None,
            opt_dashboard = None\<rparr>)
     (example_ctx None (\<lambda>q. Resolved no_member))
   = Inr \<lparr>queries = [], sent = [], settled = Resolved ()\<rparr>
   \<and> messageSent example_runtime False (MObject hello) (OneDestination (users_of ''T1'' [''bob'']))
     (Some \<lparr>opt_id = None, opt_ts = None, opt_ttl = None, opt_post = None,
            opt_dashboard = Some False\<rparr>)
     (example_ctx None (\<lambda>q. Resolved no_member))
   = Inr \<lparr>queries = [], sent = [], settled = Resolved ()\<rparr>"
proof -
  have "sublist ''lifecycle'' ''x-lifecycle-1''"
    by (simp add: sublist_code flip: string_includes_sublist)
  then show ?thesis
    using
      ignored_emits_nothing [of "Some \<lparr>opt_id = Some ''x-lifecycle-1'', opt_ts = None,
        opt_ttl = None, opt_post = None, opt_dashboard = None\<rparr>"]
      ignored_emits_nothing [of "Some \<lparr>opt_id = None, opt_ts = None, opt_ttl = None,
        opt_post = None, opt_dashboard = Some False\<rparr>"]
    by simp
qed

section \<open>The notification record\<close>

text \<open>
  C3, as stated, does not hold: a bare string is published with the chat JSON content type,
  not with \<^verbatim>\<open>text/plain\<close>. The string \<^verbatim>\<open>hello\<close>, sent as a response without origin, is
  published once, tagged \<^verbatim>\<open>application/x-atomist-slack+json\<close>.
\<close>

theorem string_message_is_slack_json:
  "messageSent example_runtime False (MString ''hello'') NoDestination None
     (example_ctx None (\<lambda>q. Resolved no_member))
   = Inr \<lparr>queries = [],
          sent = [(\<lparr>ts = 1000, key = ''guid-1'', ttl = None, post = None, contentType = SlackJson,
                   body = ''{text:hello}'', actions = [], recipient = Some ''W1''\<rparr>,
                  ''Notification'')],
          settled = Resolved ()\<rparr>
   \<and> SlackJson \<noteq> TextPlain"
  by (simp add: example_defs model_defs)

text \<open>
  C3, amended. Every notification published carries the chat JSON content type, for a bare
  string as for a structured chat message, and its body is the serialisation of the chat
  message (for a string: of the message that wraps it as its text).
\<close>

theorem content_type_slack_json:
  assumes "messageSent rt clustered message destinations options ctx = Inr out"
    and "(n, root) \<in> set (sent out)"
  shows "contentType n = SlackJson \<and>
         (\<exists>m. slackMessage rt message = Some m \<and> body n = stringify rt m)"
  using sent_messageSent [OF assms] by (auto simp: msg_def)

theorem content_type_slack_json_witness:
  "messageSent example_runtime False (MString ''hello'') NoDestination None
     (example_ctx None (\<lambda>q. Resolved no_member))
   = Inr \<lparr>queries = [], sent = [(hello_notification ''W1'', NotificationRootType)],
          settled = Resolved ()\<rparr>
   \<and> contentType (hello_notification ''W1'') = SlackJson
   \<and> body (hello_notification ''W1'')
       = stringify example_runtime \<lparr>sm_text = Some ''hello'', sm_attachments = None\<rparr>"
proof -
  have s: "messageSent example_runtime False (MString ''hello'') NoDestination None
       (example_ctx None (\<lambda>q. Resolved no_member))
     = Inr \<lparr>queries = [], sent = [(hello_notification ''W1'', NotificationRootType)],
            settled = Resolved ()\<rparr>"
    by (simp add: example_defs model_defs)
  have m: "slackMessage example_runtime (MString ''hello'')
             = Some \<lparr>sm_text = Some ''hello'', sm_attachments = None\<rparr>"
    by (simp add: slackMessage_def)
  show ?thesis
    using s m content_type_slack_json [OF s, of "hello_notification ''W1''" NotificationRootType]
    by simp
qed

text \<open>
  C8. Any two notifications published for one message have the same key, ts, ttl, post, body
  and actions: they are equal once the recipient of one is given to the other.
\<close>

theorem clones_differ_in_recipient_only:
  assumes "messageSent rt clustered message destinations options ctx = Inr out"
    and "(n1, root1) \<in> set (sent out)"
    and "(n2, root2) \<in> set (sent out)"
  shows "key n1 = key n2 \<and> ts n1 = ts n2 \<and> ttl n1 = ttl n2 \<and> post n1 = post n2 \<and>
         body n1 = body n2 \<and> actions n1 = actions n2 \<and> n1\<lparr>recipient := recipient n2\<rparr> = n2"
  using sent_messageSent [OF assms(1,2)] sent_messageSent [OF assms(1,3)] by auto

theorem clones_differ_in_recipient_only_witness:
  "key (hello_notification ''W1'') = key (hello_notification ''W1-bobgh'') \<and>
   ts (hello_notification ''W1'') = ts (hello_notification ''W1-bobgh'') \<and>
   ttl (hello_notification ''W1'') = ttl (hello_notification ''W1-bobgh'') \<and>
   post (hello_notification ''W1'') = post (hello_notification ''W1-bobgh'') \<and>
   body (hello_notification ''W1'') = body (hello_notification ''W1-bobgh'') \<and>
   actions (hello_notification ''W1'') = actions (hello_notification ''W1-bobgh'') \<and>
   (hello_notification ''W1'')\<lparr>recipient := recipient (hello_notification ''W1-bobgh'')\<rparr>
     = hello_notification ''W1-bobgh'' \<and>
   hello_notification ''W1'' \<noteq> hello_notification ''W1-bobgh''"
proof -
  have s: "messageSent example_runtime False (MObject hello)
             (OneDestination (users_of ''T1'' [''bob''])) None
             (example_ctx None (\<lambda>q. Resolved (member_with (Defined ''bobgh''))))
           = Inr \<lparr>queries = [loginQuery ''T1'' ''bob''],
                  sent = [(hello_notification ''W1'', NotificationRootType),
                          (hello_notification ''W1-bobgh'', NotificationRootType)],
                  settled = Resolved ()\<rparr>"
    by (simp add: example_defs model_defs loginQuery_def)
  have d: "hello_notification ''W1'' \<noteq> hello_notification ''W1-bobgh''"
    by (simp add: hello_notification_def)
  show ?thesis
    using clones_differ_in_recipient_only [OF s, of "hello_notification ''W1''"
        NotificationRootType "hello_notification ''W1-bobgh''" NotificationRootType] d
    by simp
qed

text \<open>
  C9, as stated, does not hold for every attachment list: an action without command (a plain
  chat action) makes the flattening throw, and so does an action whose command has a
  parameter named \<^verbatim>\<open>hasOwnProperty\<close>. No sequence of actions results and nothing is
  published.
\<close>

theorem plain_action_throws:
  "notificationActions (example_ctx None (\<lambda>q. Resolved no_member))
     (with_actions [Some (command_action ''a''), Some (plain_action ''b'')]) = Inl TypeError
   \<and> messageSent example_runtime False
       (MObject (with_actions [Some (command_action ''a''), Some (plain_action ''b'')]))
       NoDestination None (example_ctx None (\<lambda>q. Resolved no_member)) = Inl TypeError
   \<and> notificationActions (example_ctx None (\<lambda>q. Resolved no_member))
       (with_actions [Some (shadowing_action ''a'')]) = Inl TypeError"
  by (simp add: example_defs model_defs notificationAction_def parameters_def plain_action_def
      shadowing_action_def with_actions_def)

text \<open>
  C9, amended. When every action that is not falsy carries a command whose parameter object
  has no property named \<^verbatim>\<open>hasOwnProperty\<close>, the actions of the notification correspond
  one to one, in order, to the action lists of the attachments taken one after the other
  with the falsy entries dropped; each has the text of its action and the type button. The
  attachments \<^verbatim>\<open>[{actions: [a, b]}, {actions: [c]}]\<close> give \<^verbatim>\<open>[a, b, c]\<close>.
\<close>

theorem actions_flattened_in_order:
  assumes "\<forall>a \<in> set (attachmentActions (case sm_attachments m of None \<Rightarrow> [] | Some atts \<Rightarrow> atts)).
             \<exists>c. act_command a = Some c \<and>
                 (\<forall>ps. cmd_parameters c = Some ps \<longrightarrow> ''hasOwnProperty'' \<notin> set (map fst ps))"
  shows "\<exists>acts. notificationActions ctx m = Inr acts \<and>
           list_all2 (\<lambda>a n. notificationAction ctx a = Inr n)
             (attachmentActions (case sm_attachments m of None \<Rightarrow> [] | Some atts \<Rightarrow> atts)) acts \<and>
           map na_text acts =
             map act_text (attachmentActions (case sm_attachments m of None \<Rightarrow> [] | Some atts \<Rightarrow> atts)) \<and>
           (\<forall>n \<in> set acts. na_type n = Button)"
proof -
  let ?as = "attachmentActions (case sm_attachments m of None \<Rightarrow> [] | Some atts \<Rightarrow> atts)"
  have "\<exists>n. notificationAction ctx a = Inr n" if "a \<in> set ?as" for a
  proof -
    from assms that obtain c where c: "act_command a = Some c"
      and p: "\<forall>ps. cmd_parameters c = Some ps \<longrightarrow> ''hasOwnProperty'' \<notin> set (map fst ps)"
      by blast
    from p have "\<exists>ps. parameters c = Inr ps"
      by (cases "cmd_parameters c") (simp_all add: parameters_def)
    then show ?thesis
      using c by (auto simp: notificationAction_def)
  qed
  then have "\<forall>a \<in> set ?as. \<exists>n. notificationAction ctx a = Inr n"
    by blast
  then obtain acts where r: "map_throwing (notificationAction ctx) ?as = Inr acts"
    and l: "list_all2 (\<lambda>a n. notificationAction ctx a = Inr n) ?as acts"
    using map_throwing_total by blast
  have n: "notificationActions ctx m = Inr acts"
    using r by (simp add: notificationActions_def filter_truthy_flatten)
  have t: "list_all2 (\<lambda>a n. na_text n = act_text a \<and> na_type n = Button) ?as acts"
    using l
    by (rule list_all2_mono) (auto simp: notificationAction_def split: option.splits sum.splits)
  have "map na_text acts = map act_text ?as"
    using t by (induction rule: list_all2_induct) simp_all
  moreover have "\<forall>n \<in> set acts. na_type n = Button"
    using t by (induction rule: list_all2_induct) simp_all
  ultimately show ?thesis
    using n l by blast
qed

theorem actions_flattened_in_order_witness:
  "\<exists>acts. notificationActions (example_ctx None (\<lambda>q. Resolved no_member))
            \<lparr>sm_text = None,
             sm_attachments = Some
               [\<lparr>att_actions = Some [Some (command_action ''a''), Some (command_action ''b'')]\<rparr>,
                \<lparr>att_actions = Some [Some (command_action ''c'')]\<rparr>]\<rparr> = Inr acts \<and>
          map na_text acts = [''a'', ''b'', ''c''] \<and>
          map na_type acts = [Button, Button, Button]"
proof -
  let ?m = "\<lparr>sm_text = None,
             sm_attachments = Some
               [\<lparr>att_actions = Some [Some (command_action ''a''), Some (command_action ''b'')]\<rparr>,
                \<lparr>att_actions = Some [Some (command_action ''c'')]\<rparr>]\<rparr>"
  let ?ctx = "example_ctx None (\<lambda>q. Resolved no_member)"
  have a: "attachmentActions (case sm_attachments ?m of None \<Rightarrow> [] | Some atts \<Rightarrow> atts)
             = [command_action ''a'', command_action ''b'', command_action ''c'']"
    by (simp add: attachmentActions_def)
  have h: "\<forall>a \<in> set (attachmentActions (case sm_attachments ?m of None \<Rightarrow> [] | Some atts \<Rightarrow> atts)).
             \<exists>c. act_command a = Some c \<and>
                 (\<forall>ps. cmd_parameters c = Some ps \<longrightarrow> ''hasOwnProperty'' \<notin> set (map fst ps))"
    unfolding a by (simp add: command_action_def)
  from actions_flattened_in_order [OF h, of ?ctx]
  obtain acts where n: "notificationActions ?ctx ?m = Inr acts"
    and t: "map na_text acts
              = map act_text [command_action ''a'', command_action ''b'', command_action ''c'']"
    and b: "\<forall>n \<in> set acts. na_type n = Button"
    unfolding a by blast
  from t have "length acts = 3"
    by (metis length_map length_Cons list.size(3) numeral_3_eq_3)
  then obtain x y z where "acts = [x, y, z]"
    by (auto simp: length_Suc_conv numeral_3_eq_3)
  then show ?thesis
    using n t b by (simp add: command_action_def)
qed

section \<open>Response messages\<close>

text \<open>
  C4. A message without destinations whose origin is a chat session (with its team and its
  user) makes exactly one lookup, for the team id and the name of the chat user. When the
  lookup answers with a login, exactly one event is published, addressed to the workspace
  id, a hyphen and the login. When it answers without a login, nothing is published and the
  promise resolves.
\<close>

theorem chat_response:
  assumes "(clustered \<and> isWorker rt) \<or> \<not> clustered"
    and "slackMessage rt message = Some m"
    and "\<not> ignore options"
    and "notificationActions ctx m = Inr acts"
    and "destinationList destinations = []"
    and "source ctx = Some src"
    and "user_agent src = ''slack''"
    and "slack src = Some sl"
    and "user sl = Some u"
  shows "\<exists>out. messageSent rt clustered message destinations options ctx = Inr out \<and>
           queries out = [\<lparr>query = LoginQuery, teamId = team_id sl, screenName = user_name u\<rparr>] \<and>
           (\<forall>chatId l.
              graphClient_query ctx
                  \<lparr>query = LoginQuery, teamId = team_id sl, screenName = user_name u\<rparr>
                = Resolved chatId \<and> get_login chatId = Defined l \<and> l \<noteq> [] \<longrightarrow>
              sent out =
                [((msg rt options m acts)\<lparr>recipient := Some (workspaceId ctx @ ''-'' @ l)\<rparr>,
                  NotificationRootType)]) \<and>
           (\<forall>chatId.
              graphClient_query ctx
                  \<lparr>query = LoginQuery, teamId = team_id sl, screenName = user_name u\<rparr>
                = Resolved chatId \<and> (\<forall>l. get_login chatId = Defined l \<longrightarrow> l = []) \<longrightarrow>
              sent out = [] \<and> settled out = Resolved ())"
proof -
  let ?n = "msg rt options m acts"
  let ?q = "\<lparr>query = LoginQuery, teamId = team_id sl, screenName = user_name u\<rparr>"
  let ?out = "queryThen ctx ?q (\<lambda>chatId. sendToLogin ctx ?n (get_login chatId))"
  have "responseMessage ctx ?n = Inr ?out"
    using assms(6-9) by (simp add: responseMessage_def webIdentity_def)
  then have a: "messageSent rt clustered message destinations options ctx = Inr ?out"
    using messageSent_forwarded [OF assms(1-4), of destinations] assms(5) by simp
  have b: "queries ?out = [?q]"
    by (simp add: queryThen_def sendToLogin_def send_def nothing_def Let_def
        split: promise.splits maybe.splits)
  have c: "sent ?out = [(?n\<lparr>recipient := Some (workspaceId ctx @ ''-'' @ l)\<rparr>, NotificationRootType)]"
    if "graphClient_query ctx ?q = Resolved chatId" "get_login chatId = Defined l" "l \<noteq> []"
    for chatId l
    using that by (simp add: queryThen_def sendToLogin_def send_def Let_def)
  have d: "sent ?out = [] \<and> settled ?out = Resolved ()"
    if "graphClient_query ctx ?q = Resolved chatId" "\<forall>l. get_login chatId = Defined l \<longrightarrow> l = []"
    for chatId
    using that by (simp add: queryThen_def sendToLogin_def nothing_def split: maybe.splits)
  show ?thesis
    using a b c d by blast
qed

theorem chat_response_witness:
  "\<exists>out. messageSent example_runtime False (MString ''hello'') NoDestination None
            (example_ctx (Some (slack_source ''T1'' ''al''))
               (\<lambda>q. Resolved (member_with (Defined ''alice'')))) = Inr out \<and>
         queries out = [\<lparr>query = LoginQuery, teamId = ''T1'', screenName = Some ''al''\<rparr>] \<and>
         sent out = [(hello_notification ''W1-alice'', NotificationRootType)]"
proof -
  let ?g = "\<lambda>q :: QueryOptions. Resolved (member_with (Defined ''alice''))"
  let ?ctx = "example_ctx (Some (slack_source ''T1'' ''al'')) ?g"
  let ?m = "\<lparr>sm_text = Some ''hello'', sm_attachments = None\<rparr>"
  have 1: "(False \<and> isWorker example_runtime) \<or> \<not> False" by simp
  have 2: "slackMessage example_runtime (MString ''hello'') = Some ?m"
    by (simp add: slackMessage_def)
  have 3: "\<not> ignore None" by (simp add: ignore_def)
  have 4: "notificationActions ?ctx ?m = Inr []"
    by (simp add: notificationActions_def flatten_def)
  have 5: "destinationList NoDestination = []" by (simp add: destinationList_def)
  have 6: "source ?ctx = Some (slack_source ''T1'' ''al'')"
    by (simp add: example_ctx_def)
  have 7: "user_agent (slack_source ''T1'' ''al'') = ''slack''"
    by (simp add: slack_source_def)
  have 8: "slack (slack_source ''T1'' ''al'')
             = Some \<lparr>team_id = ''T1'', user = Some \<lparr>user_name = Some ''al''\<rparr>\<rparr>"
    by (simp add: slack_source_def)
  have 9: "user \<lparr>team_id = ''T1'', user = Some \<lparr>user_name = Some ''al''\<rparr>\<rparr>
             = Some \<lparr>user_name = Some ''al''\<rparr>"
    by simp
  have g: "graphClient_query ?ctx q = Resolved (member_with (Defined ''alice''))" for q
    by (simp add: example_ctx_def)
  have l: "get_login (member_with (Defined ''alice'')) = Defined ''alice''"
    by (simp add: get_login_def member_with_def)
  have n: "(msg example_runtime None ?m [])\<lparr>recipient := Some (workspaceId ?ctx @ ''-'' @ ''alice'')\<rparr>
             = hello_notification ''W1-alice''"
    by (simp add: msg_def example_runtime_def example_ctx_def hello_notification_def)
  from chat_response [OF 1 2 3 4 5 6 7 8 9]
  obtain out where
    "messageSent example_runtime False (MString ''hello'') NoDestination None ?ctx = Inr out"
    and "queries out = [\<lparr>query = LoginQuery, teamId = ''T1'', screenName = Some ''al''\<rparr>]"
    and "sent out =
           [((msg example_runtime None ?m [])\<lparr>recipient := Some (workspaceId ?ctx @ ''-'' @ ''alice'')\<rparr>,
             NotificationRootType)]"
    using g l by fastforce
  then show ?thesis
    using n by simp
qed

text \<open>
  C10. A message without destinations whose origin is a web session without identity (no
  \<^verbatim>\<open>web\<close> field, or a \<^verbatim>\<open>web\<close> field without \<^verbatim>\<open>identity\<close>) makes no lookup and publishes
  exactly one event, addressed to the workspace id alone. The outcome is the one of the same
  message with no origin, or with an origin that is neither web nor chat.
\<close>

theorem web_without_identity:
  assumes "(clustered \<and> isWorker rt) \<or> \<not> clustered"
    and "slackMessage rt message = Some m"
    and "\<not> ignore options"
    and "notificationActions ctx m = Inr acts"
    and "destinationList destinations = []"
    and "source ctx = Some src"
    and "user_agent src = ''web''"
    and "web src = None \<or> (\<exists>w. web src = Some w \<and> identity w = None)"
  shows "messageSent rt clustered message destinations options ctx =
           Inr \<lparr>queries = [],
                sent = [((msg rt options m acts)\<lparr>recipient := Some (workspaceId ctx)\<rparr>,
                         NotificationRootType)],
                settled = messageClient_send ctx
                            ((msg rt options m acts)\<lparr>recipient := Some (workspaceId ctx)\<rparr>)
                            NotificationRootType\<rparr>
         \<and> (\<forall>other. other = None \<or>
                (\<exists>s. other = Some s \<and> user_agent s \<noteq> ''web'' \<and> user_agent s \<noteq> ''slack'') \<longrightarrow>
              messageSent rt clustered message destinations options (ctx\<lparr>source := other\<rparr>) =
              messageSent rt clustered message destinations options ctx)"
proof -
  let ?n = "msg rt options m acts"
  have r: "responseMessage ctx ?n = Inr (send ctx ?n (workspaceId ctx))"
    using assms(6-8) by (auto simp: responseMessage_def webIdentity_def)
  have o: "responseMessage (ctx\<lparr>source := other\<rparr>) ?n = Inr (send ctx ?n (workspaceId ctx))"
    if "other = None \<or> (\<exists>s. other = Some s \<and> user_agent s \<noteq> ''web'' \<and> user_agent s \<noteq> ''slack'')"
    for other
    using that by (auto simp: responseMessage_def webIdentity_def send_def)
  have a: "messageSent rt clustered message destinations options ctx
             = Inr (send ctx ?n (workspaceId ctx))"
    using messageSent_forwarded [OF assms(1-4), of destinations] assms(5) r by simp
  have b: "messageSent rt clustered message destinations options (ctx\<lparr>source := other\<rparr>)
             = Inr (send ctx ?n (workspaceId ctx))"
    if "other = None \<or> (\<exists>s. other = Some s \<and> user_agent s \<noteq> ''web'' \<and> user_agent s \<noteq> ''slack'')"
    for other
    using messageSent_forwarded [OF assms(1-3), of "ctx\<lparr>source := other\<rparr>" acts destinations]
      assms(4,5) o [OF that]
    by (simp add: notificationActions_source)
  show ?thesis
    using a b by (simp add: send_def Let_def)
qed

theorem web_without_identity_witness:
  "messageSent example_runtime False (MObject hello) NoDestination None
     (example_ctx (Some \<lparr>user_agent = ''web'', web = Some \<lparr>identity = None\<rparr>, slack = None\<rparr>)
        (\<lambda>q. Resolved (member_with (Defined ''alice''))))
   = Inr \<lparr>queries = [], sent = [(hello_notification ''W1'', NotificationRootType)],
          settled = Resolved ()\<rparr>"
proof -
  let ?src = "\<lparr>user_agent = ''web'', web = Some \<lparr>identity = None\<rparr>, slack = None\<rparr>"
  let ?ctx = "example_ctx (Some ?src) (\<lambda>q. Resolved (member_with (Defined ''alice'')))"
  have 1: "(False \<and> isWorker example_runtime) \<or> \<not> False" by simp
  have 2: "slackMessage example_runtime (MObject hello) = Some hello"
    by (simp add: slackMessage_def example_runtime_def hello_def)
  have 3: "\<not> ignore None" by (simp add: ignore_def)
  have 4: "notificationActions ?ctx hello = Inr []"
    by (simp add: notificationActions_def hello_def flatten_def)
  have 5: "destinationList NoDestination = []" by (simp add: destinationList_def)
  have 6: "source ?ctx = Some ?src"
    by (simp add: example_ctx_def)
  have 7: "user_agent ?src = ''web''" by simp
  have 8: "web ?src = None \<or> (\<exists>w. web ?src = Some w \<and> identity w = None)"
    by simp
  show ?thesis
    using web_without_identity [OF 1 2 3 4 5 6 7 8]
    by (simp add: msg_def example_runtime_def example_ctx_def hello_def hello_notification_def)
qed

section \<open>Addressed messages\<close>

text \<open>
  C2. A message with one or more destinations publishes exactly one event addressed to the
  workspace id alone, whether or not a destination names a channel (the channels are never
  read); the events of the users are all addressed otherwise.
\<close>

theorem workspace_notification:
  assumes "(clustered \<and> isWorker rt) \<or> \<not> clustered"
    and "slackMessage rt message = Some m"
    and "\<not> ignore options"
    and "notificationActions ctx m = Inr acts"
    and "destinationList destinations \<noteq> []"
  shows "\<exists>out. messageSent rt clustered message destinations options ctx = Inr out \<and>
           filter (\<lambda>(n, root). recipient n = Some (workspaceId ctx)) (sent out) =
             [((msg rt options m acts)\<lparr>recipient := Some (workspaceId ctx)\<rparr>, NotificationRootType)]"
proof -
  let ?n = "msg rt options m acts"
  let ?out = "addressedMessage ctx ?n (destinationList destinations)"
  have a: "messageSent rt clustered message destinations options ctx = Inr ?out"
    using messageSent_forwarded [OF assms(1-4), of destinations] assms(5) by simp
  have "filter (\<lambda>(n, root). recipient n = Some (workspaceId ctx))
          (concat (map (\<lambda>u. sent (userMessage ctx ?n u)) us)) = []" for us
    by (induction us) (simp_all add: userMessage_not_workspace)
  then have "filter (\<lambda>(n, root). recipient n = Some (workspaceId ctx)) (sent ?out) =
             [(?n\<lparr>recipient := Some (workspaceId ctx)\<rparr>, NotificationRootType)]"
    by (simp add: addressedMessage_sent)
  then show ?thesis
    using a by blast
qed

theorem workspace_notification_witness:
  "\<exists>out. messageSent example_runtime False (MObject hello)
            (OneDestination (users_of ''T1'' [''bob''])) None
            (example_ctx None (\<lambda>q. Resolved (member_with (Defined ''bobgh'')))) = Inr out \<and>
         filter (\<lambda>(n, root). recipient n = Some ''W1'') (sent out) =
           [(hello_notification ''W1'', NotificationRootType)]"
proof -
  let ?ctx = "example_ctx None (\<lambda>q. Resolved (member_with (Defined ''bobgh'')))"
  have 1: "(False \<and> isWorker example_runtime) \<or> \<not> False" by simp
  have 2: "slackMessage example_runtime (MObject hello) = Some hello"
    by (simp add: slackMessage_def example_runtime_def hello_def)
  have 3: "\<not> ignore None" by (simp add: ignore_def)
  have 4: "notificationActions ?ctx hello = Inr []"
    by (simp add: notificationActions_def hello_def flatten_def)
  have 5: "destinationList (OneDestination (users_of ''T1'' [''bob''])) \<noteq> []"
    by (simp add: destinationList_def)
  have n: "(msg example_runtime None hello [])\<lparr>recipient := Some ''W1''\<rparr>
             = hello_notification ''W1''"
    by (simp add: msg_def example_runtime_def hello_notification_def hello_def)
  have w: "workspaceId ?ctx = ''W1''" by (simp add: example_ctx_def)
  show ?thesis
    using workspace_notification [OF 1 2 3 4 5] unfolding w n .
qed

text \<open>
  C5, as stated, does not hold: a user whose lookup finds no login can be dropped. With the
  destination users \<^verbatim>\<open>["bob"]\<close> and a lookup whose answer ends in \<^verbatim>\<open>login: null\<close>, and
  with the users \<^verbatim>\<open>[""]\<close> and a lookup that finds no member, only the workspace event is
  published.
\<close>

theorem no_match_dropped:
  "messageSent example_runtime False (MObject hello) (OneDestination (users_of ''T1'' [''bob'']))
     None (example_ctx None (\<lambda>q. Resolved (member_with Null)))
   = Inr \<lparr>queries = [\<lparr>query = LoginQuery, teamId = ''T1'', screenName = Some ''bob''\<rparr>],
          sent = [(hello_notification ''W1'', ''Notification'')],
          settled = Resolved ()\<rparr>
   \<and> messageSent example_runtime False (MObject hello) (OneDestination (users_of ''T1'' [[]]))
     None (example_ctx None (\<lambda>q. Resolved no_member))
   = Inr \<lparr>queries = [\<lparr>query = LoginQuery, teamId = ''T1'', screenName = Some []\<rparr>],
          sent = [(hello_notification ''W1'', ''Notification'')],
          settled = Resolved ()\<rparr>"
  by (simp add: example_defs model_defs)

text \<open>
  C5, amended. For a user with a non-empty screen name, named by a destination, whose lookup
  resolves to an answer with nothing at the login path (the path ends at a missing or null
  object, at an empty list or at a missing login), the lookup of that user publishes exactly
  one event, addressed to the workspace id, a hyphen and the screen name, and this event is
  among the events of the message.
\<close>

theorem fallback_to_screen_name:
  assumes "(clustered \<and> isWorker rt) \<or> \<not> clustered"
    and "slackMessage rt message = Some m"
    and "\<not> ignore options"
    and "notificationActions ctx m = Inr acts"
    and "sd \<in> set (destinationList destinations)"
    and "users sd = Some names"
    and "s \<in> set names"
    and "s \<noteq> []"
    and "graphClient_query ctx (loginQuery (team sd) s) = Resolved chatId"
    and "get_login chatId = Undefined"
  shows "\<exists>out. messageSent rt clustered message destinations options ctx = Inr out \<and>
           sent (userMessage ctx (msg rt options m acts)
                   \<lparr>user_teamId = team sd, user_screenName = s\<rparr>) =
             [((msg rt options m acts)\<lparr>recipient := Some (workspaceId ctx @ ''-'' @ s)\<rparr>,
               NotificationRootType)] \<and>
           ((msg rt options m acts)\<lparr>recipient := Some (workspaceId ctx @ ''-'' @ s)\<rparr>,
             NotificationRootType) \<in> set (sent out)"
proof -
  let ?n = "msg rt options m acts"
  let ?u = "\<lparr>user_teamId = team sd, user_screenName = s\<rparr>"
  let ?e = "(?n\<lparr>recipient := Some (workspaceId ctx @ ''-'' @ s)\<rparr>, NotificationRootType)"
  let ?out = "addressedMessage ctx ?n (destinationList destinations)"
  have "destinationList destinations \<noteq> []"
    using assms(5) by auto
  then have a: "messageSent rt clustered message destinations options ctx = Inr ?out"
    using messageSent_forwarded [OF assms(1-4), of destinations] by simp
  have b: "sent (userMessage ctx ?n ?u) = [?e]"
    using assms(8-10)
    by (simp add: userMessage_def queryThen_def sendToLogin_def send_def get_login_default_def
        loginQuery_def Let_def)
  have "?u \<in> set (userEntries (destinationList destinations))"
    using assms(5-7) by (force simp: userEntries_def)
  then have "?e \<in> set (sent ?out)"
    using b by (force simp: addressedMessage_sent)
  then show ?thesis
    using a b by blast
qed

theorem fallback_to_screen_name_witness:
  "\<exists>out. messageSent example_runtime False (MObject hello)
            (OneDestination (users_of ''T1'' [''bob''])) None
            (example_ctx None (\<lambda>q. Resolved no_member)) = Inr out \<and>
         (hello_notification ''W1-bob'', NotificationRootType) \<in> set (sent out)"
proof -
  let ?ctx = "example_ctx None (\<lambda>q. Resolved no_member)"
  have 1: "(False \<and> isWorker example_runtime) \<or> \<not> False" by simp
  have 2: "slackMessage example_runtime (MObject hello) = Some hello"
    by (simp add: slackMessage_def example_runtime_def hello_def)
  have 3: "\<not> ignore None" by (simp add: ignore_def)
  have 4: "notificationActions ?ctx hello = Inr []"
    by (simp add: notificationActions_def hello_def flatten_def)
  have 5: "users_of ''T1'' [''bob'']
             \<in> set (destinationList (OneDestination (users_of ''T1'' [''bob''])))"
    by (simp add: destinationList_def)
  have 6: "users (users_of ''T1'' [''bob'']) = Some [''bob'']"
    by (simp add: users_of_def)
  have 7: "''bob'' \<in> set [''bob'']" by simp
  have 8: "''bob'' \<noteq> []" by simp
  have 9: "graphClient_query ?ctx (loginQuery (team (users_of ''T1'' [''bob''])) ''bob'')
             = Resolved no_member"
    by (simp add: example_ctx_def)
  have 10: "get_login no_member = Undefined"
    by (simp add: get_login_def no_member_def)
  have n: "(msg example_runtime None hello [])\<lparr>recipient := Some (workspaceId ?ctx @ ''-'' @ ''bob'')\<rparr>
             = hello_notification ''W1-bob''"
    by (simp add: msg_def example_runtime_def example_ctx_def hello_notification_def hello_def)
  show ?thesis
    using fallback_to_screen_name [OF 1 2 3 4 5 6 7 8 9 10] unfolding n by blast
qed

text \<open>
  C1 on the source: the pairs are not deduplicated. The entries of \<^verbatim>\<open>users\<close> are distinct
  objects, so \<^verbatim>\<open>_.uniq\<close> keeps them all (\<open>uniq_users\<close>). Two destinations that each name
  \<^verbatim>\<open>bob\<close> in team \<^verbatim>\<open>T1\<close>, and one destination that names \<^verbatim>\<open>bob\<close> twice, make two
  lookups for the pair and publish two events for the user.
\<close>

theorem duplicate_users_looked_up_twice:
  "messageSent example_runtime False (MObject hello)
     (DestinationArray [users_of ''T1'' [''bob''], users_of ''T1'' [''bob'']]) None
     (example_ctx None (\<lambda>q. Resolved (member_with (Defined ''bobgh''))))
   = Inr \<lparr>queries = [\<lparr>query = LoginQuery, teamId = ''T1'', screenName = Some ''bob''\<rparr>,
                     \<lparr>query = LoginQuery, teamId = ''T1'', screenName = Some ''bob''\<rparr>],
          sent = [(hello_notification ''W1'', ''Notification''),
                  (hello_notification ''W1-bobgh'', ''Notification''),
                  (hello_notification ''W1-bobgh'', ''Notification'')],
          settled = Resolved ()\<rparr>
   \<and> messageSent example_runtime False (MObject hello)
     (OneDestination (users_of ''T1'' [''bob'', ''bob''])) None
     (example_ctx None (\<lambda>q. Resolved (member_with (Defined ''bobgh''))))
   = Inr \<lparr>queries = [\<lparr>query = LoginQuery, teamId = ''T1'', screenName = Some ''bob''\<rparr>,
                     \<lparr>query = LoginQuery, teamId = ''T1'', screenName = Some ''bob''\<rparr>],
          sent = [(hello_notification ''W1'', ''Notification''),
                  (hello_notification ''W1-bobgh'', ''Notification''),
                  (hello_notification ''W1-bobgh'', ''Notification'')],
          settled = Resolved ()\<rparr>"
  by (simp add: example_defs model_defs)

end
